theory Spec2Isabelle
  imports Main "HOL-Library.Word" "HOL-Library.Multiset"
begin

section \<open>docker\_stats\_exporter: the per-scrape collection pipeline of \<^verbatim>\<open>main.go\<close>\<close>

text \<open>
  The development embeds \<^verbatim>\<open>exporter.Collect\<close> and \<^verbatim>\<open>exporter.collectContainer\<close>.
  The Docker client, \<^verbatim>\<open>text/template\<close>, \<^verbatim>\<open>encoding/json\<close> and the Prometheus
  client are libraries outside the repository; each call into them is modelled by the
  value it hands back to \<^verbatim>\<open>main.go\<close>.
\<close>

subsection \<open>Data\<close>

type_synonym uint64 = "64 word"

text \<open>A Go \<^verbatim>\<open>error\<close> is represented by its message.\<close>

type_synonym error = string

text \<open>
  \<^verbatim>\<open>float64\<close> values stay symbolic: \<open>F64 w\<close> is the conversion \<^verbatim>\<open>float64(w)\<close> of an
  unsigned 64-bit integer (the untyped constant \<^verbatim>\<open>1\<close> is \<open>F64 1\<close>), \<open>Fdiv\<close> is the
  floating-point quotient.
\<close>

datatype float64 = F64 uint64 | Fdiv float64 float64

text \<open>The fields of \<^verbatim>\<open>types.Container\<close> that \<^verbatim>\<open>main.go\<close> reads, and its labels.\<close>

record Container =
  ID :: string
  Names :: "string list"
  State :: string
  Labels :: "string \<rightharpoonup> string"

text \<open>\<^verbatim>\<open>types.ContainerJSON\<close> is only handed on to the templates.\<close>

record ContainerJSON =
  JSON_ID :: string
  JSON_State_Status :: string
  JSON_State_Health_Status :: "string option"

record CPUUsage =
  TotalUsage :: uint64

record CPUStats_t =
  CPUUsage :: CPUUsage

record MemoryStats_t =
  Usage :: uint64
  Stats :: "string \<rightharpoonup> uint64"
  Limit :: uint64

record NetworkStats =
  RxBytes :: uint64
  TxBytes :: uint64

record BlkioStatEntry =
  Major :: uint64
  Minor :: uint64
  Op :: string
  Value :: uint64

record BlkioStats_t =
  IoServiceBytesRecursive :: "BlkioStatEntry list"

record PidsStats_t =
  Current :: uint64

text \<open>
  \<^verbatim>\<open>types.StatsJSON\<close>. \<open>Networks\<close> is a Go map from interface name to counters; it is
  kept as the list of its entries in the order in which the \<^verbatim>\<open>range\<close> statement of
  line 148 visits them.
\<close>

record StatsJSON =
  CPUStats :: CPUStats_t
  MemoryStats :: MemoryStats_t
  Networks :: "(string \<times> NetworkStats) list"
  BlkioStats :: BlkioStats_t
  PidsStats :: PidsStats_t

text \<open>
  A constant metric as built by \<^verbatim>\<open>prometheus.MustNewConstMetric\<close> from a descriptor
  (name and label names), a value type, a value and the label values. The library panics
  on a descriptor with an invalid or repeated label name and on a label value that is
  not UTF-8. \<^verbatim>\<open>Describe\<close> has the custom label names checked when the exporter is
  registered; here they are taken to be valid and different from \<^verbatim>\<open>name\<close>, and the
  values to be UTF-8, so that the call builds the metric.
\<close>

datatype ValueType = CounterValue | GaugeValue

record Metric =
  fqName :: string
  labelsNames :: "string list"
  valueType :: ValueType
  val :: float64
  labelsValues :: "string list"

definition MustNewConstMetric ::
  "string \<Rightarrow> string list \<Rightarrow> ValueType \<Rightarrow> float64 \<Rightarrow> string list \<Rightarrow> Metric" where
  "MustNewConstMetric name lnames vt v lvalues =
     \<lparr>fqName = name, labelsNames = lnames, valueType = vt, val = v, labelsValues = lvalues\<rparr>"

subsection \<open>Metric derivation (lines 106 to 201)\<close>

text \<open>\<^verbatim>\<open>nsToS\<close>: \<^verbatim>\<open>float64(ns) / float64(time.Second)\<close>, with \<^verbatim>\<open>time.Second\<close> = 1000000000.\<close>

definition nsToS :: "uint64 \<Rightarrow> float64" where
  "nsToS ns = Fdiv (F64 ns) (F64 1000000000)"

text \<open>The memory block, lines 117 to 128.\<close>

definition cacheKey :: "MemoryStats_t \<Rightarrow> string" where
  "cacheKey m =
     (case Stats m ''total_inactive_file'' of
        Some _ \<Rightarrow> ''total_inactive_file''
      | None \<Rightarrow> ''inactive_file'')"

definition memoryBytes :: "MemoryStats_t \<Rightarrow> uint64" where
  "memoryBytes m =
     (case Stats m (cacheKey m) of
        Some cacheBytes \<Rightarrow> if Usage m < cacheBytes then 0 else Usage m - cacheBytes
      | None \<Rightarrow> Usage m)"

text \<open>The network loop, lines 147 to 151: both accumulators start at 0.\<close>

fun networkBytes :: "(string \<times> NetworkStats) list \<Rightarrow> uint64 \<times> uint64 \<Rightarrow> uint64 \<times> uint64" where
  "networkBytes [] (rxBytes, txBytes) = (rxBytes, txBytes)"
| "networkBytes ((_, network) # rest) (rxBytes, txBytes) =
     networkBytes rest (rxBytes + RxBytes network, txBytes + TxBytes network)"

text \<open>The block-I/O loop, lines 170 to 178: a \<^verbatim>\<open>switch\<close> on the operation string.\<close>

fun blkioBytes :: "BlkioStatEntry list \<Rightarrow> uint64 \<times> uint64 \<Rightarrow> uint64 \<times> uint64" where
  "blkioBytes [] (readBytes, writeBytes) = (readBytes, writeBytes)"
| "blkioBytes (blkioStat # rest) (readBytes, writeBytes) =
     (if Op blkioStat = ''read'' then blkioBytes rest (readBytes + Value blkioStat, writeBytes)
      else if Op blkioStat = ''write'' then blkioBytes rest (readBytes, writeBytes + Value blkioStat)
      else blkioBytes rest (readBytes, writeBytes))"

text \<open>The eight resource metrics in the order in which they are sent.\<close>

definition resourceMetrics :: "string list \<Rightarrow> string list \<Rightarrow> StatsJSON \<Rightarrow> Metric list" where
  "resourceMetrics lnames lvalues stats =
     (let (rxBytes, txBytes) = networkBytes (Networks stats) (0, 0);
          (readBytes, writeBytes) =
             blkioBytes (IoServiceBytesRecursive (BlkioStats stats)) (0, 0)
      in
      [MustNewConstMetric ''docker_container_cpu_seconds_total'' lnames CounterValue
         (nsToS (TotalUsage (CPUUsage (CPUStats stats)))) lvalues,
       MustNewConstMetric ''docker_container_memory_usage_bytes'' lnames GaugeValue
         (F64 (memoryBytes (MemoryStats stats))) lvalues,
       MustNewConstMetric ''docker_container_memory_limit_bytes'' lnames GaugeValue
         (F64 (Limit (MemoryStats stats))) lvalues,
       MustNewConstMetric ''docker_container_network_rx_bytes_total'' lnames CounterValue
         (F64 rxBytes) lvalues,
       MustNewConstMetric ''docker_container_network_tx_bytes_total'' lnames CounterValue
         (F64 txBytes) lvalues,
       MustNewConstMetric ''docker_container_blkio_read_bytes_total'' lnames CounterValue
         (F64 readBytes) lvalues,
       MustNewConstMetric ''docker_container_blkio_write_bytes_total'' lnames CounterValue
         (F64 writeBytes) lvalues,
       MustNewConstMetric ''docker_container_pids'' lnames GaugeValue
         (F64 (Current (PidsStats stats))) lvalues])"

text \<open>The values of all metrics of a given name in a list of metrics.\<close>

definition values_of :: "string \<Rightarrow> Metric list \<Rightarrow> float64 list" where
  "values_of name ms = map val (filter (\<lambda>m. fqName m = name) ms)"

subsection \<open>Collaborators\<close>

text \<open>
  \<^verbatim>\<open>strings.Trim(s, cutset)\<close> removes from both ends of \<open>s\<close> every byte contained in
  \<open>cutset\<close>; for an ASCII cutset, as in \<^verbatim>\<open>main.go\<close>, Go trims byte by byte, the
  right end first.
\<close>

definition trimRight :: "string \<Rightarrow> string \<Rightarrow> string" where
  "trimRight s cutset = rev (dropWhile (\<lambda>b. b \<in> set cutset) (rev s))"

definition trimLeft :: "string \<Rightarrow> string \<Rightarrow> string" where
  "trimLeft s cutset = dropWhile (\<lambda>b. b \<in> set cutset) s"

definition Trim :: "string \<Rightarrow> string \<Rightarrow> string" where
  "Trim s cutset = trimLeft (trimRight s cutset) cutset"

text \<open>The anonymous struct of lines 70 to 76 that the templates are executed on.\<close>

record templateData =
  Container :: Container
  ContainerJSON :: ContainerJSON

text \<open>
  A parsed \<^verbatim>\<open>*template.Template\<close> is represented by what \<^verbatim>\<open>Execute\<close> does on a
  data value: the bytes it writes to the buffer and the error it returns. When an action
  fails, \<^verbatim>\<open>text/template\<close> stops and returns the error, and the output written before
  the failing action stays in the buffer.
\<close>

type_synonym Template = "templateData \<Rightarrow> string \<times> error option"

definition Execute :: "Template \<Rightarrow> templateData \<Rightarrow> string \<times> error option" where
  "Execute labelTemplate data = labelTemplate data"

text \<open>
  The body of a stats response is represented by the result of decoding it as JSON into
  a \<^verbatim>\<open>types.StatsJSON\<close>.
\<close>

record ContainerStats =
  Body_Decode :: "error + StatsJSON"

text \<open>
  The Docker client: the answers of the daemon during one scrape. \<open>ContainerList\<close> is
  the call with \<^verbatim>\<open>All: true\<close>; the other two take the container ID.
\<close>

record Client =
  ContainerList :: "error + Container list"
  ContainerInspect :: "string \<Rightarrow> error + ContainerJSON"
  ContainerStatsOneShot :: "string \<Rightarrow> error + ContainerStats"

text \<open>
  \<open>extraLabels\<close> is a Go map; it is kept as the list of its entries. A \<^verbatim>\<open>range\<close>
  over a Go map visits the entries in an order that the language leaves unspecified and
  that may change from one execution of the statement to the next. Each execution of the
  statement therefore takes a \<open>ranging\<close>: the function that puts the entries into the
  order of that visit.
\<close>

record exporter =
  docker :: Client
  extraLabels :: "(string \<times> Template) list"

type_synonym ranging = "(string \<times> Template) list \<Rightarrow> (string \<times> Template) list"

definition is_ranging :: "ranging \<Rightarrow> (string \<times> Template) list \<Rightarrow> bool" where
  "is_ranging visit entries \<longleftrightarrow> mset (visit entries) = mset entries"

subsection \<open>\<^verbatim>\<open>collectContainer\<close>\<close>

text \<open>The loop of lines 69 to 81; the error returned by \<^verbatim>\<open>Execute\<close> is dropped.\<close>

fun labelsLoop ::
  "(string \<times> Template) list \<Rightarrow> templateData \<Rightarrow> string list \<times> string list
     \<Rightarrow> string list \<times> string list" where
  "labelsLoop [] data (lnames, lvalues) = (lnames, lvalues)"
| "labelsLoop ((labelName, labelTemplate) # rest) data (lnames, lvalues) =
     labelsLoop rest data
       (lnames @ [labelName], lvalues @ [fst (Execute labelTemplate data)])"

text \<open>
  A call either returns (\<^verbatim>\<open>nil\<close> or an error) or panics; with it comes the list of
  metrics the call has sent on the channel, in the order of sending.
\<close>

datatype outcome = Return "error option" | Panic string

definition collectContainer ::
  "exporter \<Rightarrow> ranging \<Rightarrow> Container \<Rightarrow> Metric list \<times> outcome" where
  "collectContainer e visit container =
     (case ContainerInspect (docker e) (ID container) of
        Inl err \<Rightarrow> ([], Return (Some err))
      | Inr containerJson \<Rightarrow>
          (case Names container of
             [] \<Rightarrow> ([], Panic ''index out of range [0] with length 0'')
           | name0 # _ \<Rightarrow>
               (let (lnames, lvalues) =
                      labelsLoop (visit (extraLabels e))
                        \<lparr>Container = container, ContainerJSON = containerJson\<rparr>
                        ([''name''], [Trim name0 ''/'']);
                    info = MustNewConstMetric ''docker_container_info'' lnames GaugeValue
                             (F64 1) lvalues
                in if State container \<noteq> ''running'' then ([info], Return None)
                   else
                     (case ContainerStatsOneShot (docker e) (ID container) of
                        Inl err \<Rightarrow> ([info], Return (Some (''cannot get stats: '' @ err)))
                      | Inr statsReader \<Rightarrow>
                          (case Body_Decode statsReader of
                             Inl err \<Rightarrow>
                               ([info], Return (Some (''cannot decode stats: '' @ err)))
                           | Inr stats \<Rightarrow>
                               (info # resourceMetrics lnames lvalues stats,
                                Return None))))))"

subsection \<open>\<^verbatim>\<open>Collect\<close>\<close>

text \<open>
  One goroutine of lines 50 to 56: the metrics it has sent, and how it ended: finished,
  with the line it logged if \<^verbatim>\<open>collectContainer\<close> returned an error, or panicked.
\<close>

datatype ending = Finished "string option" | Panicked string

definition goroutine :: "exporter \<Rightarrow> ranging \<Rightarrow> Container \<Rightarrow> Metric list \<times> ending" where
  "goroutine e visit container =
     (case collectContainer e visit container of
        (sent, Return None) \<Rightarrow> (sent, Finished None)
      | (sent, Return (Some err)) \<Rightarrow>
          (sent, Finished (Some (''cannot collect container '' @ ID container @ '': '' @ err)))
      | (sent, Panic p) \<Rightarrow> (sent, Panicked p))"

text \<open>
  What one call of \<^verbatim>\<open>Collect\<close> leads to; the function is \<open>Collect_exporter\<close> here,
  as \<open>Collect\<close> is the set comprehension of HOL. \<^verbatim>\<open>log.Fatalf\<close> prints its line and
  calls \<^verbatim>\<open>os.Exit(1)\<close>; a panic that no goroutine recovers ends the process as well.
  Otherwise \<^verbatim>\<open>wg.Wait()\<close> returns once every goroutine has finished, and \<open>Collected\<close>
  holds, per listed container and in list order, what its goroutine has sent and logged.
  The channel receives the metrics of different goroutines in any interleaving.
\<close>

datatype scrape = Exit nat string | Crash | Collected "(Metric list \<times> ending) list"

fun is_Panicked :: "ending \<Rightarrow> bool" where
  "is_Panicked (Panicked _) = True"
| "is_Panicked (Finished _) = False"

definition Collect_exporter :: "exporter \<Rightarrow> (nat \<Rightarrow> ranging) \<Rightarrow> scrape" where
  "Collect_exporter e sched =
     (case ContainerList (docker e) of
        Inl err \<Rightarrow> Exit 1 (''cannot list containers: '' @ err)
      | Inr containers \<Rightarrow>
          (let units = map (\<lambda>(i, container). goroutine e (sched i) container)
                         (enumerate 0 containers)
           in if list_ex (\<lambda>u. is_Panicked (snd u)) units then Crash
              else Collected units))"

text \<open>Whether the exporter process is gone after the scrape.\<close>

fun process_terminated :: "scrape \<Rightarrow> bool" where
  "process_terminated (Exit _ _) = True"
| "process_terminated Crash = True"
| "process_terminated (Collected _) = False"

subsection \<open>Example inputs\<close>

text \<open>
  The two containers of the reference output: \<open>nginx\<close> is running, \<open>redis\<close> has
  exited. \<open>anonymous\<close> has no name at all and \<open>slashed\<close> a name that ends in a
  separator.
\<close>

definition nginx :: Container where
  "nginx = \<lparr>ID = ''4fa6e0f0c678'', Names = [''/nginx''], State = ''running'',
            Labels = [''com.docker.compose.project'' \<mapsto> ''web'']\<rparr>"

definition redis :: Container where
  "redis = \<lparr>ID = ''9b2d1c3e5a7f'', Names = [''/redis''], State = ''exited'',
            Labels = [''com.docker.compose.project'' \<mapsto> ''web'']\<rparr>"

definition anonymous :: Container where
  "anonymous = \<lparr>ID = ''0c1d2e3f4a5b'', Names = [], State = ''created'',
                Labels = Map.empty\<rparr>"

definition slashed :: Container where
  "slashed = \<lparr>ID = ''77aa88bb99cc'', Names = [''/web/'', ''/alias''], State = ''exited'',
              Labels = Map.empty\<rparr>"

definition nginx_stats :: StatsJSON where
  "nginx_stats =
     \<lparr>CPUStats = \<lparr>CPUUsage = \<lparr>TotalUsage = 138186000\<rparr>\<rparr>,
      MemoryStats = \<lparr>Usage = 4280320, Stats = [''inactive_file'' \<mapsto> 0], Limit = 3521634304\<rparr>,
      Networks = [(''eth0'', \<lparr>RxBytes = 6062, TxBytes = 9047\<rparr>)],
      BlkioStats = \<lparr>IoServiceBytesRecursive =
        [\<lparr>Major = 8, Minor = 0, Op = ''read'', Value = 77824\<rparr>,
         \<lparr>Major = 8, Minor = 0, Op = ''write'', Value = 8192\<rparr>]\<rparr>,
      PidsStats = \<lparr>Current = 5\<rparr>\<rparr>"

definition inspected :: "string \<Rightarrow> ContainerJSON" where
  "inspected cid = \<lparr>JSON_ID = cid, JSON_State_Status = ''unknown'',
                     JSON_State_Health_Status = None\<rparr>"

definition inspect_ok :: "string \<Rightarrow> error + ContainerJSON" where
  "inspect_ok cid = Inr (inspected cid)"

definition inspect_gone :: "string \<Rightarrow> error + ContainerJSON" where
  "inspect_gone cid = Inl (''No such container: '' @ cid)"

definition stats_ok :: "string \<Rightarrow> error + ContainerStats" where
  "stats_ok cid = Inr \<lparr>Body_Decode = Inr nginx_stats\<rparr>"

definition stats_refused :: "string \<Rightarrow> error + ContainerStats" where
  "stats_refused cid = Inl ''connection refused''"


text \<open>
  Two templates: \<^verbatim>\<open>{{.Container.State}}\<close>, which cannot fail, and
  \<^verbatim>\<open>health={{.ContainerJSON.State.Health.Status}}\<close>, which fails on a container
  without a health check after it has written its leading text.
\<close>

definition state_template :: Template where
  "state_template data = (State (Container data), None)"

definition prefixed_health_template :: Template where
  "prefixed_health_template data =
     (case JSON_State_Health_Status (ContainerJSON data) of
        Some status \<Rightarrow> (''health='' @ status, None)
      | None \<Rightarrow> (''health='', Some ''nil pointer evaluating *types.Health.Status''))"

text \<open>Two orders of visiting a map, and the schedule that gives every goroutine the same one.\<close>

definition as_listed :: ranging where
  "as_listed entries = entries"

definition backwards :: ranging where
  "backwards entries = rev entries"

definition always :: "ranging \<Rightarrow> nat \<Rightarrow> ranging" where
  "always visit i = visit"

definition plain_exporter :: "Client \<Rightarrow> exporter" where
  "plain_exporter client = \<lparr>docker = client, extraLabels = []\<rparr>"

definition labelled_exporter :: "Client \<Rightarrow> exporter" where
  "labelled_exporter client =
     \<lparr>docker = client,
      extraLabels = [(''state'', state_template), (''health'', prefixed_health_template)]\<rparr>"

definition daemon :: Client where
  "daemon = \<lparr>ContainerList = Inr [nginx, redis], ContainerInspect = inspect_ok,
             ContainerStatsOneShot = stats_ok\<rparr>"

definition daemon_down :: Client where
  "daemon_down = \<lparr>ContainerList = Inl ''Cannot connect to the Docker daemon'',
                  ContainerInspect = inspect_gone, ContainerStatsOneShot = stats_refused\<rparr>"


section \<open>Properties\<close>

subsection \<open>The loops in closed form\<close>

lemma networkBytes_sum_list:
  "networkBytes nets (rx, tx) =
     (rx + sum_list (map (\<lambda>n. RxBytes (snd n)) nets), tx + sum_list (map (\<lambda>n. TxBytes (snd n)) nets))"
  by (induction nets arbitrary: rx tx) (auto simp: add.assoc)

lemma blkioBytes_sum_list:
  "blkioBytes recs (r, w) =
     (r + sum_list (map Value (filter (\<lambda>s. Op s = ''read'') recs)),
      w + sum_list (map Value (filter (\<lambda>s. Op s = ''write'') recs)))"
  by (induction recs arbitrary: r w) (auto simp: add.assoc)

lemma unat_sum_list_uint64:
  fixes ws :: "uint64 list"
  shows "sum_list (map unat ws) < 2 ^ 64 \<Longrightarrow> unat (sum_list ws) = sum_list (map unat ws)"
proof (induction ws)
  case Nil
  then show ?case by simp
next
  case (Cons w ws)
  then have small: "sum_list (map unat ws) < 2 ^ 64" by simp
  with Cons.IH have ih: "unat (sum_list ws) = sum_list (map unat ws)" by simp
  from Cons.prems have "unat w + unat (sum_list ws) < 2 ^ LENGTH(64)"
    by (simp add: ih)
  then have "unat (w + sum_list ws) = unat w + unat (sum_list ws)"
    by (simp only: unat_add_lem)
  then show ?case by (simp add: ih)
qed

lemma labelsLoop_eq:
  "labelsLoop entries data (lnames, lvalues) =
     (lnames @ map fst entries, lvalues @ map (\<lambda>(l, t). fst (Execute t data)) entries)"
  by (induction entries arbitrary: lnames lvalues) auto

lemma memoryBytes_uint:
  "uint (memoryBytes m) =
     (case Stats m ''total_inactive_file'' of
        Some c \<Rightarrow> max 0 (uint (Usage m) - uint c)
      | None \<Rightarrow> (case Stats m ''inactive_file'' of
           Some c \<Rightarrow> max 0 (uint (Usage m) - uint c)
         | None \<Rightarrow> uint (Usage m)))"
  by (auto simp: memoryBytes_def cacheKey_def word_less_def uint_sub_if' split: option.splits)

lemma sum_list_map_mset:
  fixes f :: "'a \<Rightarrow> uint64"
  shows "mset xs = mset ys \<Longrightarrow> sum_list (map f xs) = sum_list (map f ys)"
proof -
  assume "mset xs = mset ys"
  then have "sum_mset (image_mset f (mset xs)) = sum_mset (image_mset f (mset ys))"
    by simp
  then show ?thesis
    by (simp add: sum_mset_sum_list [symmetric] del: sum_mset_sum_list)
qed

subsection \<open>Metric derivation\<close>

text \<open>
  Claim C1. For every usage snapshot, the value of \<^verbatim>\<open>memory_usage_bytes\<close> is the
  resident memory minus the cache amount found in the memory breakdown map under
  \<^verbatim>\<open>total_inactive_file\<close> when that key is present, otherwise under \<^verbatim>\<open>inactive_file\<close>
  when that key is present; with neither key the resident value is emitted as it is; and
  when the cache amount exceeds the resident amount the value is 0, never negative.
  The subtraction is stated on the integers that the 64-bit values denote.
\<close>

theorem memory_usage_bytes_subtracts_cache:
  "values_of ''docker_container_memory_usage_bytes'' (resourceMetrics lnames lvalues stats) =
     [F64 (memoryBytes (MemoryStats stats))]
   \<and> (Stats m ''total_inactive_file'' = Some v1 \<longrightarrow>
        uint (memoryBytes m) = max 0 (uint (Usage m) - uint v1))
   \<and> (Stats m ''total_inactive_file'' = None \<and> Stats m ''inactive_file'' = Some v2 \<longrightarrow>
        uint (memoryBytes m) = max 0 (uint (Usage m) - uint v2))
   \<and> (Stats m ''total_inactive_file'' = None \<and> Stats m ''inactive_file'' = None \<longrightarrow>
        memoryBytes m = Usage m)
   \<and> (Stats m (cacheKey m) = Some cache \<and> Usage m < cache \<longrightarrow> memoryBytes m = 0)"
proof -
  have sent: "values_of ''docker_container_memory_usage_bytes'' (resourceMetrics lnames lvalues stats) =
     [F64 (memoryBytes (MemoryStats stats))]"
    by (simp add: values_of_def resourceMetrics_def MustNewConstMetric_def split: prod.splits)
  have clamp: "Stats m (cacheKey m) = Some cache \<and> Usage m < cache \<longrightarrow> memoryBytes m = 0"
    by (simp add: memoryBytes_def)
  have neither: "Stats m ''total_inactive_file'' = None \<and> Stats m ''inactive_file'' = None \<longrightarrow>
        memoryBytes m = Usage m"
    by (simp add: memoryBytes_def cacheKey_def)
  show ?thesis
    using sent clamp neither memoryBytes_uint [of m] by simp
qed

theorem memory_usage_bytes_subtracts_cache_witness:
  "uint (memoryBytes \<lparr>Usage = 500, Stats = [''total_inactive_file'' \<mapsto> 200, ''inactive_file'' \<mapsto> 7], Limit = 0\<rparr>) = 300
   \<and> uint (memoryBytes \<lparr>Usage = 500, Stats = [''inactive_file'' \<mapsto> 80], Limit = 0\<rparr>) = 420
   \<and> memoryBytes \<lparr>Usage = 500, Stats = Map.empty, Limit = 0\<rparr> = 500
   \<and> memoryBytes \<lparr>Usage = 500, Stats = [''total_inactive_file'' \<mapsto> 501], Limit = 0\<rparr> = 0"
  using memory_usage_bytes_subtracts_cache
          [of _ _ _ "\<lparr>Usage = 500, Stats = [''total_inactive_file'' \<mapsto> 200, ''inactive_file'' \<mapsto> 7], Limit = 0\<rparr>" 200]
        memory_usage_bytes_subtracts_cache
          [of _ _ _ "\<lparr>Usage = 500, Stats = [''inactive_file'' \<mapsto> 80], Limit = 0\<rparr>" _ 80]
        memory_usage_bytes_subtracts_cache
          [of _ _ _ "\<lparr>Usage = 500, Stats = Map.empty, Limit = 0\<rparr>"]
        memory_usage_bytes_subtracts_cache
          [of _ _ _ "\<lparr>Usage = 500, Stats = [''total_inactive_file'' \<mapsto> 501], Limit = 0\<rparr>" _ _ 501]
  by (simp add: cacheKey_def)

text \<open>
  Claim C6. For every list of block-I/O records, \<^verbatim>\<open>blkio_read_bytes_total\<close> is the sum
  of the byte counts of exactly the records whose operation is the string \<^verbatim>\<open>read\<close>,
  compared byte by byte, \<^verbatim>\<open>blkio_write_bytes_total\<close> likewise for \<^verbatim>\<open>write\<close>, and
  a record with any other operation changes neither total. The sums are those of the
  program, in \<^verbatim>\<open>uint64\<close>; they are the sums over the natural numbers whenever those
  fit into 64 bits.
\<close>

theorem blkio_totals_by_exact_tag:
  "values_of ''docker_container_blkio_read_bytes_total'' (resourceMetrics lnames lvalues stats) =
     [F64 (sum_list (map Value (filter (\<lambda>r. Op r = ''read'')
        (IoServiceBytesRecursive (BlkioStats stats)))))]
   \<and> values_of ''docker_container_blkio_write_bytes_total'' (resourceMetrics lnames lvalues stats) =
     [F64 (sum_list (map Value (filter (\<lambda>r. Op r = ''write'')
        (IoServiceBytesRecursive (BlkioStats stats)))))]
   \<and> (Op other \<noteq> ''read'' \<and> Op other \<noteq> ''write'' \<longrightarrow>
        blkioBytes (before @ other # after) acc = blkioBytes (before @ after) acc)
   \<and> (sum_list (map (\<lambda>r. unat (Value r)) (filter (\<lambda>r. Op r = tag) recs)) < 2 ^ 64 \<longrightarrow>
        unat (sum_list (map Value (filter (\<lambda>r. Op r = tag) recs))) =
        sum_list (map (\<lambda>r. unat (Value r)) (filter (\<lambda>r. Op r = tag) recs)))"
proof -
  have rd: "values_of ''docker_container_blkio_read_bytes_total'' (resourceMetrics lnames lvalues stats) =
     [F64 (sum_list (map Value (filter (\<lambda>r. Op r = ''read'')
        (IoServiceBytesRecursive (BlkioStats stats)))))]"
    by (simp add: values_of_def resourceMetrics_def MustNewConstMetric_def blkioBytes_sum_list
          split: prod.splits)
  have wr: "values_of ''docker_container_blkio_write_bytes_total'' (resourceMetrics lnames lvalues stats) =
     [F64 (sum_list (map Value (filter (\<lambda>r. Op r = ''write'')
        (IoServiceBytesRecursive (BlkioStats stats)))))]"
    by (simp add: values_of_def resourceMetrics_def MustNewConstMetric_def blkioBytes_sum_list
          split: prod.splits)
  have skip: "Op other \<noteq> ''read'' \<and> Op other \<noteq> ''write'' \<longrightarrow>
        blkioBytes (before @ other # after) acc = blkioBytes (before @ after) acc"
    by (cases acc) (simp add: blkioBytes_sum_list)
  have exact: "sum_list (map (\<lambda>r. unat (Value r)) (filter (\<lambda>r. Op r = tag) recs)) < 2 ^ 64 \<longrightarrow>
        unat (sum_list (map Value (filter (\<lambda>r. Op r = tag) recs))) =
        sum_list (map (\<lambda>r. unat (Value r)) (filter (\<lambda>r. Op r = tag) recs))"
    using unat_sum_list_uint64 [of "map Value (filter (\<lambda>r. Op r = tag) recs)"]
    by (simp add: comp_def)
  from rd wr skip exact show ?thesis by (intro conjI)
qed

theorem blkio_totals_by_exact_tag_witness:
  "Op \<lparr>Major = 8, Minor = 0, Op = ''Read'', Value = 1000\<rparr> \<noteq> ''read''
   \<and> Op \<lparr>Major = 8, Minor = 0, Op = ''Read'', Value = 1000\<rparr> \<noteq> ''write''
   \<and> blkioBytes
         (IoServiceBytesRecursive (BlkioStats nginx_stats)
            @ \<lparr>Major = 8, Minor = 0, Op = ''Read'', Value = 1000\<rparr>
            # [\<lparr>Major = 8, Minor = 0, Op = ''total'', Value = 86016\<rparr>]) (0, 0)
       = blkioBytes
         (IoServiceBytesRecursive (BlkioStats nginx_stats)
            @ [\<lparr>Major = 8, Minor = 0, Op = ''total'', Value = 86016\<rparr>]) (0, 0)
   \<and> unat (sum_list (map Value (filter (\<lambda>r. Op r = ''read'')
         (IoServiceBytesRecursive (BlkioStats nginx_stats))))) = 77824"
  using blkio_totals_by_exact_tag
          [of _ _ _ "\<lparr>Major = 8, Minor = 0, Op = ''Read'', Value = 1000\<rparr>"
              "IoServiceBytesRecursive (BlkioStats nginx_stats)"
              "[\<lparr>Major = 8, Minor = 0, Op = ''total'', Value = 86016\<rparr>]" "(0, 0)"
              "''read''" "IoServiceBytesRecursive (BlkioStats nginx_stats)"]
  by (simp add: nginx_stats_def)

text \<open>
  Claim C7. For every usage snapshot, \<^verbatim>\<open>network_rx_bytes_total\<close> is the sum of the
  received bytes and \<^verbatim>\<open>network_tx_bytes_total\<close> the sum of the transmitted bytes over
  every listed interface, in whichever order the map is visited; with no interface both
  are 0. The sums are those of the program, in \<^verbatim>\<open>uint64\<close>; they are the sums over the
  natural numbers whenever those fit into 64 bits.
\<close>

theorem network_totals_over_all_interfaces:
  "values_of ''docker_container_network_rx_bytes_total'' (resourceMetrics lnames lvalues stats) =
     [F64 (sum_list (map (\<lambda>n. RxBytes (snd n)) (Networks stats)))]
   \<and> values_of ''docker_container_network_tx_bytes_total'' (resourceMetrics lnames lvalues stats) =
     [F64 (sum_list (map (\<lambda>n. TxBytes (snd n)) (Networks stats)))]
   \<and> (Networks stats = [] \<longrightarrow>
        values_of ''docker_container_network_rx_bytes_total''
          (resourceMetrics lnames lvalues stats) = [F64 0]
        \<and> values_of ''docker_container_network_tx_bytes_total''
          (resourceMetrics lnames lvalues stats) = [F64 0])
   \<and> (mset nets = mset nets' \<longrightarrow> networkBytes nets acc = networkBytes nets' acc)
   \<and> (sum_list (map (\<lambda>n. unat (RxBytes (snd n))) nets) < 2 ^ 64 \<longrightarrow>
        unat (sum_list (map (\<lambda>n. RxBytes (snd n)) nets)) =
        sum_list (map (\<lambda>n. unat (RxBytes (snd n))) nets))
   \<and> (sum_list (map (\<lambda>n. unat (TxBytes (snd n))) nets) < 2 ^ 64 \<longrightarrow>
        unat (sum_list (map (\<lambda>n. TxBytes (snd n)) nets)) =
        sum_list (map (\<lambda>n. unat (TxBytes (snd n))) nets))"
proof -
  have rx: "values_of ''docker_container_network_rx_bytes_total'' (resourceMetrics lnames lvalues stats) =
     [F64 (sum_list (map (\<lambda>n. RxBytes (snd n)) (Networks stats)))]"
    by (simp add: values_of_def resourceMetrics_def MustNewConstMetric_def networkBytes_sum_list
          split: prod.splits)
  have tx: "values_of ''docker_container_network_tx_bytes_total'' (resourceMetrics lnames lvalues stats) =
     [F64 (sum_list (map (\<lambda>n. TxBytes (snd n)) (Networks stats)))]"
    by (simp add: values_of_def resourceMetrics_def MustNewConstMetric_def networkBytes_sum_list
          split: prod.splits)
  have none: "Networks stats = [] \<longrightarrow>
        values_of ''docker_container_network_rx_bytes_total''
          (resourceMetrics lnames lvalues stats) = [F64 0]
        \<and> values_of ''docker_container_network_tx_bytes_total''
          (resourceMetrics lnames lvalues stats) = [F64 0]"
    by (simp add: rx tx)
  have order: "mset nets = mset nets' \<longrightarrow> networkBytes nets acc = networkBytes nets' acc"
  proof
    assume same: "mset nets = mset nets'"
    obtain r t where acc: "acc = (r, t)" by (cases acc)
    show "networkBytes nets acc = networkBytes nets' acc"
      unfolding acc networkBytes_sum_list
      using sum_list_map_mset [OF same, of "\<lambda>n. RxBytes (snd n)"]
            sum_list_map_mset [OF same, of "\<lambda>n. TxBytes (snd n)"]
      by simp
  qed
  have exact_rx: "sum_list (map (\<lambda>n. unat (RxBytes (snd n))) nets) < 2 ^ 64 \<longrightarrow>
        unat (sum_list (map (\<lambda>n. RxBytes (snd n)) nets)) =
        sum_list (map (\<lambda>n. unat (RxBytes (snd n))) nets)"
    using unat_sum_list_uint64 [of "map (\<lambda>n. RxBytes (snd n)) nets"]
    by (simp add: comp_def)
  have exact_tx: "sum_list (map (\<lambda>n. unat (TxBytes (snd n))) nets) < 2 ^ 64 \<longrightarrow>
        unat (sum_list (map (\<lambda>n. TxBytes (snd n)) nets)) =
        sum_list (map (\<lambda>n. unat (TxBytes (snd n))) nets)"
    using unat_sum_list_uint64 [of "map (\<lambda>n. TxBytes (snd n)) nets"]
    by (simp add: comp_def)
  from rx tx none order exact_rx exact_tx show ?thesis by (intro conjI)
qed

theorem network_totals_over_all_interfaces_witness:
  "Networks (nginx_stats\<lparr>Networks := []\<rparr>) = []
   \<and> values_of ''docker_container_network_rx_bytes_total''
        (resourceMetrics [''name''] [''nginx''] (nginx_stats\<lparr>Networks := []\<rparr>)) = [F64 0]
   \<and> values_of ''docker_container_network_tx_bytes_total''
        (resourceMetrics [''name''] [''nginx''] (nginx_stats\<lparr>Networks := []\<rparr>)) = [F64 0]
   \<and> networkBytes [(''eth0'', \<lparr>RxBytes = 6062, TxBytes = 9047\<rparr>),
                    (''eth1'', \<lparr>RxBytes = 38, TxBytes = 53\<rparr>)] (0, 0)
       = networkBytes [(''eth1'', \<lparr>RxBytes = 38, TxBytes = 53\<rparr>),
                       (''eth0'', \<lparr>RxBytes = 6062, TxBytes = 9047\<rparr>)] (0, 0)
   \<and> unat (sum_list (map (\<lambda>n. RxBytes (snd n))
         [(''eth0'', \<lparr>RxBytes = 6062, TxBytes = 9047\<rparr>),
          (''eth1'', \<lparr>RxBytes = 38, TxBytes = 53\<rparr>)])) = 6100
   \<and> unat (sum_list (map (\<lambda>n. TxBytes (snd n))
         [(''eth0'', \<lparr>RxBytes = 6062, TxBytes = 9047\<rparr>),
          (''eth1'', \<lparr>RxBytes = 38, TxBytes = 53\<rparr>)])) = 9100"
  using network_totals_over_all_interfaces
          [of "[''name'']" "[''nginx'']" "nginx_stats\<lparr>Networks := []\<rparr>"
              "[(''eth0'', \<lparr>RxBytes = 6062, TxBytes = 9047\<rparr>),
                (''eth1'', \<lparr>RxBytes = 38, TxBytes = 53\<rparr>)]"
              "[(''eth1'', \<lparr>RxBytes = 38, TxBytes = 53\<rparr>),
                (''eth0'', \<lparr>RxBytes = 6062, TxBytes = 9047\<rparr>)]" "(0, 0)"]
  by simp

subsection \<open>One container\<close>

text \<open>
  What a call of \<^verbatim>\<open>collectContainer\<close> does, by the three ways it can start: the
  inspection fails, the container has no name, or the labels are built and the info
  metric is sent.
\<close>

lemma resourceMetrics_labels:
  "m \<in> set (resourceMetrics lnames lvalues stats) \<Longrightarrow>
     labelsNames m = lnames \<and> labelsValues m = lvalues"
  by (auto simp: resourceMetrics_def MustNewConstMetric_def split: prod.splits)


lemma collectContainer_inspected:
  assumes "ContainerInspect (docker e) (ID c) = Inr cj" and "Names c \<noteq> []"
  shows "collectContainer e visit c =
     (let lnames = ''name'' # map fst (visit (extraLabels e));
          lvalues = Trim (hd (Names c)) ''/'' #
            map (\<lambda>(l, t). fst (Execute t \<lparr>Container = c, ContainerJSON = cj\<rparr>))
              (visit (extraLabels e));
          info = MustNewConstMetric ''docker_container_info'' lnames GaugeValue (F64 1) lvalues
      in if State c \<noteq> ''running'' then ([info], Return None)
         else
           (case ContainerStatsOneShot (docker e) (ID c) of
              Inl err \<Rightarrow> ([info], Return (Some (''cannot get stats: '' @ err)))
            | Inr statsReader \<Rightarrow>
                (case Body_Decode statsReader of
                   Inl err \<Rightarrow> ([info], Return (Some (''cannot decode stats: '' @ err)))
                 | Inr stats \<Rightarrow> (info # resourceMetrics lnames lvalues stats, Return None))))"
proof -
  from assms(2) obtain n ns where names: "Names c = n # ns"
    by (cases "Names c") auto
  show ?thesis
    by (simp add: collectContainer_def assms(1) names labelsLoop_eq Let_def)
qed

lemma collectContainer_uninspected:
  "ContainerInspect (docker e) (ID c) = Inl err \<Longrightarrow>
     collectContainer e visit c = ([], Return (Some err))"
  by (simp add: collectContainer_def)

lemma collectContainer_unnamed:
  "ContainerInspect (docker e) (ID c) = Inr cj \<Longrightarrow> Names c = [] \<Longrightarrow>
     collectContainer e visit c = ([], Panic ''index out of range [0] with length 0'')"
  by (simp add: collectContainer_def)

lemma collectContainer_sent_labels:
  assumes "m \<in> set (fst (collectContainer e visit c))"
  shows "labelsNames m = ''name'' # map fst (visit (extraLabels e))
         \<and> length (labelsValues m) = length (labelsNames m)"
proof (cases "ContainerInspect (docker e) (ID c)")
  case (Inl err)
  with assms show ?thesis by (simp add: collectContainer_uninspected)
next
  case (Inr cj)
  show ?thesis
  proof (cases "Names c = []")
    case True
    with Inr assms show ?thesis by (simp add: collectContainer_unnamed)
  next
    case False
    from assms show ?thesis
      unfolding collectContainer_inspected [OF Inr False]
      by (auto simp: Let_def MustNewConstMetric_def dest: resourceMetrics_labels
            split: if_splits sum.splits)
  qed
qed



lemma is_ranging_names:
  "is_ranging visit entries \<Longrightarrow> mset (map fst (visit entries)) = mset (map fst entries)"
proof -
  assume "is_ranging visit entries"
  then have "image_mset fst (mset (visit entries)) = image_mset fst (mset entries)"
    by (simp add: is_ranging_def)
  then show ?thesis by simp
qed

lemma nginx_sends_nine:
  "fst (collectContainer (labelled_exporter daemon) backwards nginx) =
     MustNewConstMetric ''docker_container_info'' [''name'', ''health'', ''state''] GaugeValue
       (F64 1) [''nginx'', ''health='', ''running'']
     # resourceMetrics [''name'', ''health'', ''state''] [''nginx'', ''health='', ''running'']
         nginx_stats"
  by (simp add: collectContainer_def labelled_exporter_def daemon_def inspect_ok_def
        stats_ok_def nginx_def backwards_def Execute_def state_template_def
        prefixed_health_template_def inspected_def Trim_def trimLeft_def trimRight_def)






text \<open>
  Claim C5, as the code has it. Every metric sent by one collection of one container
  carries the same list of label names: \<^verbatim>\<open>name\<close> first, then the configured custom
  labels in the order in which the \<^verbatim>\<open>range\<close> of that collection visited the map, and as
  many values as names. Whatever that order is, the names are the same for every
  container and every scrape; their order is fixed only within one collection.
\<close>

theorem label_names_within_one_collection:
  assumes "m \<in> set (fst (collectContainer e visit c))"
  shows "labelsNames m = ''name'' # map fst (visit (extraLabels e))
         \<and> length (labelsValues m) = length (labelsNames m)
         \<and> (is_ranging visit (extraLabels e) \<longrightarrow>
              mset (labelsNames m) = mset (''name'' # map fst (extraLabels e)))"
  using collectContainer_sent_labels [OF assms] is_ranging_names [of visit "extraLabels e"]
  by simp

theorem label_names_within_one_collection_witness:
  "is_ranging backwards (extraLabels (labelled_exporter daemon))
   \<and> last (fst (collectContainer (labelled_exporter daemon) backwards nginx))
        \<in> set (fst (collectContainer (labelled_exporter daemon) backwards nginx))
   \<and> labelsNames (last (fst (collectContainer (labelled_exporter daemon) backwards nginx))) =
        [''name'', ''health'', ''state'']
   \<and> mset (labelsNames (last (fst (collectContainer (labelled_exporter daemon) backwards nginx)))) =
        mset [''name'', ''state'', ''health'']"
proof -
  have ranging: "is_ranging backwards (extraLabels (labelled_exporter daemon))"
    by (simp add: is_ranging_def backwards_def)
  have sent: "last (fst (collectContainer (labelled_exporter daemon) backwards nginx))
        \<in> set (fst (collectContainer (labelled_exporter daemon) backwards nginx))"
    by (simp add: nginx_sends_nine)
  show ?thesis
    using ranging sent label_names_within_one_collection [OF sent]
    by (simp add: labelled_exporter_def backwards_def)
qed

text \<open>
  Claim C5 as stated asks for the same order for every container. With two custom labels
  and two collections whose \<^verbatim>\<open>range\<close> statements visit the map in different orders, the
  lists of label names differ.
\<close>

theorem label_names_order_differs:
  "is_ranging as_listed (extraLabels (labelled_exporter daemon))
   \<and> is_ranging backwards (extraLabels (labelled_exporter daemon))
   \<and> map labelsNames (fst (collectContainer (labelled_exporter daemon) as_listed redis)) =
        [[''name'', ''state'', ''health'']]
   \<and> map labelsNames (fst (collectContainer (labelled_exporter daemon) backwards slashed)) =
        [[''name'', ''health'', ''state'']]
   \<and> map labelsNames (fst (collectContainer (labelled_exporter daemon) as_listed redis)) \<noteq>
       map labelsNames (fst (collectContainer (labelled_exporter daemon) backwards slashed))"
  by (simp add: is_ranging_def as_listed_def backwards_def collectContainer_def
        labelled_exporter_def daemon_def inspect_ok_def redis_def slashed_def
        MustNewConstMetric_def)







text \<open>
  Claim C10, as the code has it. For a container with an empty name list whose
  inspection succeeds, \<^verbatim>\<open>collectContainer\<close> indexes the empty list and panics before
  any metric is sent, instead of returning an error.
\<close>

theorem unnamed_container_panics:
  assumes "ContainerInspect (docker e) (ID c) = Inr cj"
      and "Names c = []"
  shows "collectContainer e visit c = ([], Panic ''index out of range [0] with length 0'')
         \<and> goroutine e visit c = ([], Panicked ''index out of range [0] with length 0'')"
  by (simp add: goroutine_def collectContainer_unnamed [OF assms])

theorem unnamed_container_panics_witness:
  "ContainerInspect (docker (plain_exporter daemon)) (ID anonymous) = Inr (inspected (ID anonymous))
   \<and> Names anonymous = []
   \<and> collectContainer (plain_exporter daemon) as_listed anonymous =
       ([], Panic ''index out of range [0] with length 0'')
   \<and> goroutine (plain_exporter daemon) as_listed anonymous =
       ([], Panicked ''index out of range [0] with length 0'')"
proof -
  have inspect: "ContainerInspect (docker (plain_exporter daemon)) (ID anonymous) =
      Inr (inspected (ID anonymous))"
    by (simp add: plain_exporter_def daemon_def inspect_ok_def)
  have unnamed: "Names anonymous = []"
    by (simp add: anonymous_def)
  show ?thesis
    using inspect unnamed unnamed_container_panics [OF inspect unnamed, of as_listed]
    by simp
qed

text \<open>
  Claim C10 as stated has every container with an empty name list panic. When the
  inspection fails, the call returns that error before it reaches the name list.
\<close>

theorem unnamed_container_uninspected_returns:
  "Names anonymous = []
   \<and> collectContainer (plain_exporter daemon_down) as_listed anonymous =
       ([], Return (Some ''No such container: 0c1d2e3f4a5b''))"
  by (simp add: collectContainer_def plain_exporter_def daemon_down_def inspect_gone_def
        anonymous_def)

subsection \<open>The scrape\<close>

text \<open>
  The reference output: \<open>nginx\<close> running and \<open>redis\<close> exited give the nine metrics of
  \<open>nginx\<close> and the info metric of \<open>redis\<close>, and nothing is logged.
\<close>

lemma reference_scrape:
  "Collect_exporter (plain_exporter daemon) (always backwards) =
     Collected
       [(map (\<lambda>(name, vt, v). \<lparr>fqName = name, labelsNames = [''name''], valueType = vt,
                 val = v, labelsValues = [''nginx'']\<rparr>)
           [(''docker_container_info'', GaugeValue, F64 1),
            (''docker_container_cpu_seconds_total'', CounterValue,
               Fdiv (F64 138186000) (F64 1000000000)),
            (''docker_container_memory_usage_bytes'', GaugeValue, F64 4280320),
            (''docker_container_memory_limit_bytes'', GaugeValue, F64 3521634304),
            (''docker_container_network_rx_bytes_total'', CounterValue, F64 6062),
            (''docker_container_network_tx_bytes_total'', CounterValue, F64 9047),
            (''docker_container_blkio_read_bytes_total'', CounterValue, F64 77824),
            (''docker_container_blkio_write_bytes_total'', CounterValue, F64 8192),
            (''docker_container_pids'', GaugeValue, F64 5)],
         Finished None),
        ([\<lparr>fqName = ''docker_container_info'', labelsNames = [''name''],
           valueType = GaugeValue, val = F64 1, labelsValues = [''redis'']\<rparr>],
         Finished None)]"
  by (simp add: Collect_exporter_def goroutine_def collectContainer_def plain_exporter_def
        daemon_def inspect_ok_def stats_ok_def nginx_def redis_def nginx_stats_def
        resourceMetrics_def nsToS_def memoryBytes_def cacheKey_def
        MustNewConstMetric_def Trim_def trimLeft_def trimRight_def enumerate_eq_zip
        always_def backwards_def)






text \<open>
  Claim C4, as the code has it. When listing the containers fails, \<^verbatim>\<open>Collect\<close> logs
  \<^verbatim>\<open>cannot list containers\<close> with the error through \<^verbatim>\<open>log.Fatalf\<close>, which ends the
  process with status 1: no metric is sent, neither a partial nor an empty result is
  returned.
\<close>

theorem enumeration_failure_exits:
  assumes "ContainerList (docker e) = Inl err"
  shows "Collect_exporter e sched = Exit 1 (''cannot list containers: '' @ err)
         \<and> process_terminated (Collect_exporter e sched)"
  using assms by (simp add: Collect_exporter_def)

theorem enumeration_failure_exits_witness:
  "ContainerList (docker (plain_exporter daemon_down)) = Inl ''Cannot connect to the Docker daemon''
   \<and> Collect_exporter (plain_exporter daemon_down) (always backwards) =
       Exit 1 ''cannot list containers: Cannot connect to the Docker daemon''"
proof -
  have failed: "ContainerList (docker (plain_exporter daemon_down)) =
      Inl ''Cannot connect to the Docker daemon''"
    by (simp add: plain_exporter_def daemon_down_def)
  show ?thesis
    using failed enumeration_failure_exits [OF failed, of "always backwards"] by simp
qed

text \<open>
  Claim C4 as stated has the failure stay local to the scrape, with the process alive.
  With a daemon that cannot be reached the process is gone after the scrape.
\<close>

theorem enumeration_failure_not_scrape_local:
  "ContainerList (docker (labelled_exporter daemon_down)) = Inl ''Cannot connect to the Docker daemon''
   \<and> process_terminated (Collect_exporter (labelled_exporter daemon_down) (always as_listed))"
  by (simp add: Collect_exporter_def labelled_exporter_def daemon_down_def)

end
